theory Spec2Isabelle
  imports Main "HOL-Library.AList" "HOL-Library.Sublist" "HOL-Library.Product_Lexorder"
    "HOL-Library.Multiset"
begin

section \<open>Paths\<close>

text \<open>
  The file manager builds every path with Node's \<^verbatim>\<open>path.join\<close>, which joins its
  non-empty arguments with the separator and normalises the result: empty and \<^verbatim>\<open>.\<close>
  segments disappear, a \<^verbatim>\<open>..\<close> segment removes the segment before it (at the root it
  stays at the root), and a separator at the end of the joined string is kept. An
  absolute path is the list of its segments below the root, with a flag for the
  separator at its end.
\<close>

type_synonym path = "string list \<times> bool"

fun segments :: "string \<Rightarrow> string list" where
  "segments [] = [[]]"
| "segments (c # cs) =
     (if c = CHR ''/'' then [] # segments cs
      else (case segments cs of [] \<Rightarrow> [[c]] | x # xs \<Rightarrow> (c # x) # xs))"

definition resolve_step :: "string list \<Rightarrow> string \<Rightarrow> string list" where
  "resolve_step acc s =
     (if s = [] \<or> s = ''.'' then acc else if s = ''..'' then tl acc else s # acc)"

definition normalize_path :: "string list \<Rightarrow> string list" where
  "normalize_path segs = rev (foldl resolve_step [] segs)"

definition ends_with_separator :: "string \<Rightarrow> bool" where
  "ends_with_separator a = (a \<noteq> [] \<and> last a = CHR ''/'')"

definition path_join :: "path \<Rightarrow> string list \<Rightarrow> path" where
  "path_join base parts =
     (case filter (\<lambda>a. a \<noteq> []) parts of
        [] \<Rightarrow> base
      | a # as \<Rightarrow> (normalize_path (fst base @ concat (map segments (a # as))),
                  ends_with_separator (last (a # as))))"

text \<open>A segment that names an entry: not empty, not \<^verbatim>\<open>.\<close> and not \<^verbatim>\<open>..\<close>.\<close>

definition plain_segment :: "string \<Rightarrow> bool" where
  "plain_segment s = (s \<noteq> [] \<and> s \<noteq> ''.'' \<and> s \<noteq> ''..'')"


definition render :: "path \<Rightarrow> string" where
  "render p =
     (if fst p = [] then ''/''
      else concat (map (\<lambda>s. CHR ''/'' # s) (fst p)) @ (if snd p then ''/'' else []))"

section \<open>The filesystem\<close>

text \<open>
  A tree of files and directories. The functions on lists of segments say what stands
  at a place and how the tree changes there; the system calls below them read a path,
  where a separator at the end asks for a directory. Permissions are not part of the
  tree: the server owns everything it writes.
\<close>

datatype node = File string | Dir "(string \<times> node) list"

datatype fs_error = ENOENT | ENOTDIR | EEXIST | EISDIR | EPERM | EBUSY

fun lookup :: "node \<Rightarrow> string list \<Rightarrow> node option" where
  "lookup n [] = Some n"
| "lookup (File b) (s # p) = None"
| "lookup (Dir es) (s # p) = (case map_of es s of None \<Rightarrow> None | Some c \<Rightarrow> lookup c p)"

text \<open>A file stands where the path wants a directory to go through.\<close>

fun blocked :: "node \<Rightarrow> string list \<Rightarrow> bool" where
  "blocked n [] = False"
| "blocked (File b) (s # p) = True"
| "blocked (Dir es) (s # p) = (case map_of es s of None \<Rightarrow> False | Some c \<Rightarrow> blocked c p)"

fun mkdir_at :: "node \<Rightarrow> string list \<Rightarrow> fs_error + node" where
  "mkdir_at (File b) [] = Inl EEXIST"
| "mkdir_at (File b) (s # p) = Inl ENOTDIR"
| "mkdir_at (Dir es) [] = Inr (Dir es)"
| "mkdir_at (Dir es) (s # p) =
     (case mkdir_at (case map_of es s of None \<Rightarrow> Dir [] | Some c \<Rightarrow> c) p of
        Inl e \<Rightarrow> Inl e
      | Inr c' \<Rightarrow> Inr (Dir (AList.update s c' es)))"

fun rm_at :: "node \<Rightarrow> string list \<Rightarrow> node" where
  "rm_at t [] = t"
| "rm_at (File b) (s # p) = File b"
| "rm_at (Dir es) (s # p) =
     (if p = [] then Dir (AList.delete s es)
      else (case map_of es s of
              None \<Rightarrow> Dir es
            | Some c \<Rightarrow> Dir (AList.update s (rm_at c p) es)))"

text \<open>Replacing what stands at an existing place: how a process writes below its working directory.\<close>

fun fs_put :: "node \<Rightarrow> string list \<Rightarrow> node \<Rightarrow> node" where
  "fs_put t [] n = n"
| "fs_put (File b) (s # p) n = File b"
| "fs_put (Dir es) (s # p) n =
     (case map_of es s of
        None \<Rightarrow> Dir es
      | Some c \<Rightarrow> Dir (AList.update s (fs_put c p n) es))"

definition is_file :: "node \<Rightarrow> path \<Rightarrow> bool" where
  "is_file t p = (case lookup t (fst p) of Some (File b) \<Rightarrow> \<not> snd p | _ \<Rightarrow> False)"

text \<open>
  \<^verbatim>\<open>fs.access(p)\<close>: succeeds when something exists at the path; a file does not answer
  to a path that ends in a separator.
\<close>

definition fs_access :: "node \<Rightarrow> path \<Rightarrow> bool" where
  "fs_access t p =
     (case lookup t (fst p) of
        None \<Rightarrow> False
      | Some (File b) \<Rightarrow> \<not> snd p
      | Some (Dir es) \<Rightarrow> True)"

text \<open>
  \<^verbatim>\<open>fs.mkdir(p, { recursive: true })\<close>: creates the directory and every missing
  ancestor, leaves an existing directory alone, and fails when a file is in the way.
\<close>

definition fs_mkdir :: "node \<Rightarrow> path \<Rightarrow> fs_error + node" where
  "fs_mkdir t p = mkdir_at t (fst p)"

text \<open>\<^verbatim>\<open>fs.readdir(p)\<close>: the names of the entries of a directory.\<close>

definition fs_readdir :: "node \<Rightarrow> path \<Rightarrow> fs_error + string list" where
  "fs_readdir t p =
     (case lookup t (fst p) of
        None \<Rightarrow> Inl (if blocked t (fst p) then ENOTDIR else ENOENT)
      | Some (File b) \<Rightarrow> Inl ENOTDIR
      | Some (Dir es) \<Rightarrow> Inr (map fst es))"

text \<open>
  \<^verbatim>\<open>fs.rm(p, { recursive: true, force: true })\<close>: removes the entry at the path with
  everything beneath it. With \<^verbatim>\<open>force\<close> a path that names nothing is no error; a
  path that runs through a file is one, and the root loses its entries but cannot be
  removed itself. The result is the tree left behind and the error, if any.
\<close>

definition fs_rm :: "node \<Rightarrow> path \<Rightarrow> node \<times> fs_error option" where
  "fs_rm t p =
     (case lookup t (fst p) of
        None \<Rightarrow> (t, if blocked t (fst p) then Some ENOTDIR else None)
      | Some (File b) \<Rightarrow>
          if snd p then (t, Some ENOTDIR)
          else if fst p = [] then (t, Some EBUSY)
          else (rm_at t (fst p), None)
      | Some (Dir es) \<Rightarrow>
          if fst p = [] then (Dir [], Some EBUSY)
          else (rm_at t (fst p), None))"

text \<open>\<^verbatim>\<open>fs.unlink(p)\<close>: removes a file, and fails on a directory or a missing path.\<close>

definition fs_unlink :: "node \<Rightarrow> path \<Rightarrow> fs_error + node" where
  "fs_unlink t p =
     (case lookup t (fst p) of
        None \<Rightarrow> Inl (if blocked t (fst p) then ENOTDIR else ENOENT)
      | Some (Dir es) \<Rightarrow> Inl EISDIR
      | Some (File b) \<Rightarrow>
          if snd p then Inl ENOTDIR
          else if fst p = [] then Inl EPERM
          else Inr (rm_at t (fst p)))"

definition errno_text :: "fs_error \<Rightarrow> string" where
  "errno_text e =
     (case e of ENOENT \<Rightarrow> ''ENOENT: no such file or directory''
      | ENOTDIR \<Rightarrow> ''ENOTDIR: not a directory''
      | EEXIST \<Rightarrow> ''EEXIST: file already exists''
      | EISDIR \<Rightarrow> ''EISDIR: illegal operation on a directory''
      | EPERM \<Rightarrow> ''EPERM: operation not permitted''
      | EBUSY \<Rightarrow> ''EBUSY: resource busy or locked'')"

text \<open>The message of the error Node throws: the errno text, the system call and the path.\<close>

definition fs_message :: "fs_error \<Rightarrow> string \<Rightarrow> path \<Rightarrow> string" where
  "fs_message e syscall p =
     errno_text e @ '', '' @ syscall @ '' '' @ [CHR 0x27] @ render p @ [CHR 0x27]"

section \<open>The database\<close>

text \<open>
  The tables of \<^verbatim>\<open>shared/schema.ts\<close> that the website routes use. Identifiers are the
  strings \<^verbatim>\<open>gen_random_uuid()\<close> produces and timestamps are read from a clock; both
  come from outside the program, so each request carries them in its environment.
  Columns that may be \<^verbatim>\<open>NULL\<close> hold an option. The users table is not part of the
  state: the authentication layer hands every route the id of an existing user.
\<close>

datatype json =
  JNull
| JBool bool
| JNum int
| JStr string
| JArr "json list"
| JObj "(string \<times> json) list"

record website =
  w_id :: string
  w_userId :: string
  w_name :: string
  w_subdomain :: string
  w_description :: "string option"
  w_currentScript :: "string option"
  w_isActive :: "bool option"
  w_createdAt :: "nat option"
  w_updatedAt :: nat

text \<open>What a statement does to one column: leave it, set it to \<^verbatim>\<open>NULL\<close>, or set it to a value.\<close>

datatype 'a setting = Keep | SetNull | SetTo 'a

text \<open>\<^verbatim>\<open>InsertWebsite\<close>, as the schema of the creation route returns it.\<close>

record insert_website =
  i_userId :: string
  i_name :: string
  i_subdomain :: string
  i_description :: "string setting"
  i_currentScript :: "string setting"
  i_isActive :: "bool setting"

text \<open>The \<^verbatim>\<open>SET\<close> clause of an update of \<^verbatim>\<open>websites\<close>, column by column.\<close>

record website_set =
  c_id :: "string setting"
  c_userId :: "string setting"
  c_name :: "string setting"
  c_subdomain :: "string setting"
  c_description :: "string setting"
  c_currentScript :: "string setting"
  c_isActive :: "bool setting"
  c_createdAt :: "nat setting"

record website_log =
  l_id :: string
  l_websiteId :: string
  l_action :: string
  l_details :: json
  l_createdAt :: nat

record script_template =
  t_id :: string
  t_name :: string
  t_displayName :: string
  t_description :: "string option"
  t_version :: "string option"
  t_fileName :: string
  t_isActive :: "bool option"
  t_createdAt :: nat
  t_updatedAt :: nat

text \<open>
  Every mutation that takes effect is also written to a trace, in the order in which the
  program performs it.
\<close>

datatype effect =
  FsMkdir path
| FsRm path
| FsUnlink path
| Exec string
| DbInsertWebsite website
| DbUpdateWebsite string "(string \<times> json) list"
| DbDeleteWebsite string
| DbInsertLog website_log
| DbDeleteTemplate string

record state =
  fs :: node
  websites :: "website list"
  websiteLogs :: "website_log list"
  scriptTemplates :: "script_template list"
  trace :: "effect list"

datatype exn = ZodError | Error string

text \<open>What a request draws from outside: the time, two fresh ids, and the process id of the shell it may start.\<close>

record env =
  now :: nat
  websiteUuid :: string
  logUuid :: string
  shellPid :: nat

text \<open>
  The process and the programs around it.
  \<^item> \<open>cwd\<close>: the segments of the working directory.
  \<^item> \<open>unzip\<close>: the decompressor that \<^verbatim>\<open>unzip -o\<close> runs. Given its argument as written,
    the tree it can read and the entries of the directory it runs in, it returns the
    entries it leaves there and, when it exits with a non-zero code, what it wrote to
    standard error. It writes nowhere but below the directory it runs in.
  \<^item> \<open>shell\<close>: what \<^verbatim>\<open>/bin/sh\<close> does with a command line in which it expands something:
    from its process id, the command line and the tree, the tree it leaves and the
    failure, if any.
  \<^item> \<open>text_param\<close>, \<open>bool_param\<close>, \<open>time_param\<close>: how the database driver binds a JSON
    value that is not of the column's own type; \<open>None\<close> when the statement fails.
  \<^item> \<open>website_rank\<close>, \<open>log_rank\<close>: the order in which the database returns rows that
    are equal under \<^verbatim>\<open>ORDER BY\<close>.
\<close>

record sys =
  cwd :: "string list"
  unzip :: "string \<Rightarrow> node \<Rightarrow> (string \<times> node) list \<Rightarrow> (string \<times> node) list \<times> string option"
  shell :: "nat \<Rightarrow> string \<Rightarrow> node \<Rightarrow> node \<times> string option"
  text_param :: "json \<Rightarrow> string option"
  bool_param :: "json \<Rightarrow> bool option"
  time_param :: "json \<Rightarrow> nat option"
  website_rank :: "website \<Rightarrow> nat"
  log_rank :: "website_log \<Rightarrow> nat"

subsection \<open>Storage operations\<close>

text \<open>
  \<^verbatim>\<open>ORDER BY key DESC\<close>. The database leaves the order of rows with equal keys open:
  here they come by descending rank, and the rank is a parameter.
\<close>

definition order_by_desc :: "('a \<Rightarrow> 'k::linorder) \<Rightarrow> ('a \<Rightarrow> nat) \<Rightarrow> 'a list \<Rightarrow> 'a list" where
  "order_by_desc key rank xs = rev (sort_key (\<lambda>x. (key x, rank x)) xs)"

text \<open>In descending order \<^verbatim>\<open>NULL\<close> comes first.\<close>

definition nulls_first :: "nat option \<Rightarrow> nat \<times> nat" where
  "nulls_first t = (case t of None \<Rightarrow> (1, 0) | Some x \<Rightarrow> (0, x))"

definition getUserWebsites :: "sys \<Rightarrow> state \<Rightarrow> string \<Rightarrow> website list" where
  "getUserWebsites y s userId =
     order_by_desc (\<lambda>w. nulls_first (w_createdAt w)) (website_rank y)
       (filter (\<lambda>w. w_userId w = userId) (websites s))"

definition getWebsite :: "state \<Rightarrow> string \<Rightarrow> website option" where
  "getWebsite s i = find (\<lambda>w. w_id w = i) (websites s)"

definition getWebsiteBySubdomain :: "state \<Rightarrow> string \<Rightarrow> website option" where
  "getWebsiteBySubdomain s d = find (\<lambda>w. w_subdomain w = d) (websites s)"

definition new_website :: "env \<Rightarrow> insert_website \<Rightarrow> website" where
  "new_website e v =
     \<lparr> w_id = websiteUuid e, w_userId = i_userId v, w_name = i_name v,
       w_subdomain = i_subdomain v,
       w_description = (case i_description v of SetTo x \<Rightarrow> Some x | _ \<Rightarrow> None),
       w_currentScript = (case i_currentScript v of SetTo x \<Rightarrow> Some x | _ \<Rightarrow> None),
       w_isActive = (case i_isActive v of Keep \<Rightarrow> Some True | SetNull \<Rightarrow> None | SetTo x \<Rightarrow> Some x),
       w_createdAt = Some (now e), w_updatedAt = now e \<rparr>"

text \<open>
  \<^verbatim>\<open>insert into websites\<close>: the primary key and the unique constraint on
  \<^verbatim>\<open>subdomain\<close> reject a duplicate.
\<close>

definition createWebsite :: "env \<Rightarrow> insert_website \<Rightarrow> state \<Rightarrow> (exn + website) \<times> state" where
  "createWebsite e v s =
     (if list_ex (\<lambda>w. w_id w = websiteUuid e) (websites s)
         \<or> list_ex (\<lambda>w. w_subdomain w = i_subdomain v) (websites s)
      then (Inl (Error ''duplicate key value violates unique constraint''), s)
      else (Inr (new_website e v),
            s\<lparr> websites := websites s @ [new_website e v],
               trace := trace s @ [DbInsertWebsite (new_website e v)] \<rparr>))"

text \<open>
  The object handed to \<^verbatim>\<open>.set(...)\<close> is whatever the caller passes. A key that names a
  column sets it, any other key is ignored, and \<^verbatim>\<open>updatedAt\<close> is always overwritten with
  the time of the update. \<^verbatim>\<open>null\<close> sets \<^verbatim>\<open>NULL\<close>, a value of the column's JSON type is
  taken as it is, and any other value is bound as the driver binds it.
\<close>

fun bind_text :: "sys \<Rightarrow> json option \<Rightarrow> string setting option" where
  "bind_text y None = Some Keep"
| "bind_text y (Some JNull) = Some SetNull"
| "bind_text y (Some (JStr x)) = Some (SetTo x)"
| "bind_text y (Some j) = map_option SetTo (text_param y j)"

fun bind_bool :: "sys \<Rightarrow> json option \<Rightarrow> bool setting option" where
  "bind_bool y None = Some Keep"
| "bind_bool y (Some JNull) = Some SetNull"
| "bind_bool y (Some (JBool x)) = Some (SetTo x)"
| "bind_bool y (Some j) = map_option SetTo (bool_param y j)"

fun bind_time :: "sys \<Rightarrow> json option \<Rightarrow> nat setting option" where
  "bind_time y None = Some Keep"
| "bind_time y (Some JNull) = Some SetNull"
| "bind_time y (Some j) = map_option SetTo (time_param y j)"

definition bind_set :: "sys \<Rightarrow> (string \<times> json) list \<Rightarrow> website_set option" where
  "bind_set y u =
     Option.bind (bind_text y (map_of u ''id'')) (\<lambda>a.
     Option.bind (bind_text y (map_of u ''userId'')) (\<lambda>b.
     Option.bind (bind_text y (map_of u ''name'')) (\<lambda>c.
     Option.bind (bind_text y (map_of u ''subdomain'')) (\<lambda>d.
     Option.bind (bind_text y (map_of u ''description'')) (\<lambda>f.
     Option.bind (bind_text y (map_of u ''currentScript'')) (\<lambda>g.
     Option.bind (bind_bool y (map_of u ''isActive'')) (\<lambda>h.
     Option.bind (bind_time y (map_of u ''createdAt'')) (\<lambda>k.
       Some \<lparr> c_id = a, c_userId = b, c_name = c, c_subdomain = d, c_description = f,
              c_currentScript = g, c_isActive = h, c_createdAt = k \<rparr>))))))))"

definition required :: "'a setting \<Rightarrow> 'a \<Rightarrow> 'a" where
  "required c old = (case c of SetTo v \<Rightarrow> v | _ \<Rightarrow> old)"

definition nullable :: "'a setting \<Rightarrow> 'a option \<Rightarrow> 'a option" where
  "nullable c old = (case c of Keep \<Rightarrow> old | SetNull \<Rightarrow> None | SetTo v \<Rightarrow> Some v)"

definition set_row :: "nat \<Rightarrow> website_set \<Rightarrow> website \<Rightarrow> website" where
  "set_row t c w =
     \<lparr> w_id = required (c_id c) (w_id w),
       w_userId = required (c_userId c) (w_userId w),
       w_name = required (c_name c) (w_name w),
       w_subdomain = required (c_subdomain c) (w_subdomain w),
       w_description = nullable (c_description c) (w_description w),
       w_currentScript = nullable (c_currentScript c) (w_currentScript w),
       w_isActive = nullable (c_isActive c) (w_isActive w),
       w_createdAt = nullable (c_createdAt c) (w_createdAt w),
       w_updatedAt = t \<rparr>"

definition update_rows :: "nat \<Rightarrow> string \<Rightarrow> website_set \<Rightarrow> website list \<Rightarrow> website list" where
  "update_rows t i c ws = map (\<lambda>w. if w_id w = i then set_row t c w else w) ws"

definition not_null_violated :: "website_set \<Rightarrow> bool" where
  "not_null_violated c =
     (c_id c = SetNull \<or> c_userId c = SetNull \<or> c_name c = SetNull \<or> c_subdomain c = SetNull)"

text \<open>A log entry whose website was there before the update and is there no longer.\<close>

definition orphaned :: "website list \<Rightarrow> website list \<Rightarrow> website_log \<Rightarrow> bool" where
  "orphaned old new l =
     (list_ex (\<lambda>w. w_id w = l_websiteId l) old
      \<and> \<not> list_ex (\<lambda>w. w_id w = l_websiteId l) new)"

text \<open>
  \<^verbatim>\<open>update websites set ... where id = i returning *\<close>. The statement fails when a value
  cannot be bound, when a column that is \<^verbatim>\<open>NOT NULL\<close> would become \<^verbatim>\<open>NULL\<close>, when an
  id or a subdomain would stand twice, and when a log entry would lose its website
  (the foreign key of \<^verbatim>\<open>website_logs\<close> takes no action on update). The row returned
  is the first one updated, and \<^verbatim>\<open>undefined\<close> when no row has the id.
\<close>

definition updateWebsite ::
  "sys \<Rightarrow> env \<Rightarrow> string \<Rightarrow> (string \<times> json) list \<Rightarrow> state \<Rightarrow> (exn + website option) \<times> state" where
  "updateWebsite y e i u s =
     (case bind_set y u of
        None \<Rightarrow> (Inl (Error ''invalid input value''), s)
      | Some c \<Rightarrow>
          if list_ex (\<lambda>w. w_id w = i) (websites s) \<and> not_null_violated c
          then (Inl (Error ''null value violates not-null constraint''), s)
          else if (c_id c \<noteq> Keep \<and> \<not> distinct (map w_id (update_rows (now e) i c (websites s))))
                \<or> (c_subdomain c \<noteq> Keep
                    \<and> \<not> distinct (map w_subdomain (update_rows (now e) i c (websites s))))
          then (Inl (Error ''duplicate key value violates unique constraint''), s)
          else if c_id c \<noteq> Keep
                \<and> list_ex (orphaned (websites s) (update_rows (now e) i c (websites s))) (websiteLogs s)
          then (Inl (Error ''update violates foreign key constraint''), s)
          else (Inr (map_option (set_row (now e) c) (find (\<lambda>w. w_id w = i) (websites s))),
                s\<lparr> websites := update_rows (now e) i c (websites s),
                   trace := trace s @ [DbUpdateWebsite i u] \<rparr>))"

text \<open>Deleting a website deletes its log entries with it (\<^verbatim>\<open>onDelete: "cascade"\<close>).\<close>

definition deleteWebsite :: "string \<Rightarrow> state \<Rightarrow> state" where
  "deleteWebsite i s =
     s\<lparr> websites := filter (\<lambda>w. w_id w \<noteq> i) (websites s),
        websiteLogs := filter (\<lambda>l. l_websiteId l \<noteq> i) (websiteLogs s),
        trace := trace s @ [DbDeleteWebsite i] \<rparr>"

definition getScriptTemplate :: "state \<Rightarrow> string \<Rightarrow> script_template option" where
  "getScriptTemplate s i = find (\<lambda>t. t_id t = i) (scriptTemplates s)"

definition deleteScriptTemplate :: "string \<Rightarrow> state \<Rightarrow> state" where
  "deleteScriptTemplate i s =
     s\<lparr> scriptTemplates := filter (\<lambda>t. t_id t \<noteq> i) (scriptTemplates s),
        trace := trace s @ [DbDeleteTemplate i] \<rparr>"

definition logs_of :: "state \<Rightarrow> string \<Rightarrow> website_log list" where
  "logs_of s i = filter (\<lambda>l. l_websiteId l = i) (websiteLogs s)"

text \<open>\<^verbatim>\<open>select ... where website_id = i order by created_at desc\<close>\<close>

definition getWebsiteLogs :: "sys \<Rightarrow> state \<Rightarrow> string \<Rightarrow> website_log list" where
  "getWebsiteLogs y s websiteId = order_by_desc l_createdAt (log_rank y) (logs_of s websiteId)"

definition new_log :: "env \<Rightarrow> string \<Rightarrow> string \<Rightarrow> json \<Rightarrow> website_log" where
  "new_log e websiteId action details =
     \<lparr> l_id = logUuid e, l_websiteId = websiteId, l_action = action,
       l_details = details, l_createdAt = now e \<rparr>"

text \<open>
  \<^verbatim>\<open>insert into website_logs\<close>: the primary key rejects a duplicate id and the foreign
  key rejects an entry for a website that does not exist.
\<close>

definition createWebsiteLog ::
  "env \<Rightarrow> string \<Rightarrow> string \<Rightarrow> json \<Rightarrow> state \<Rightarrow> (exn + website_log) \<times> state" where
  "createWebsiteLog e websiteId action details s =
     (if list_ex (\<lambda>l. l_id l = logUuid e) (websiteLogs s)
      then (Inl (Error ''duplicate key value violates unique constraint''), s)
      else if \<not> list_ex (\<lambda>w. w_id w = websiteId) (websites s)
      then (Inl (Error ''insert violates foreign key constraint''), s)
      else (Inr (new_log e websiteId action details),
            s\<lparr> websiteLogs := websiteLogs s @ [new_log e websiteId action details],
               trace := trace s @ [DbInsertLog (new_log e websiteId action details)] \<rparr>))"

section \<open>The file manager\<close>

definition baseDir :: "sys \<Rightarrow> path" where
  "baseDir y = path_join (cwd y, False) [''user_websites'']"

definition scriptsDir :: "sys \<Rightarrow> path" where
  "scriptsDir y = path_join (cwd y, False) [''allscripts'']"

definition getUserWebsiteDir :: "sys \<Rightarrow> string \<Rightarrow> string \<Rightarrow> path" where
  "getUserWebsiteDir y userId subdomain = path_join (baseDir y) [userId, subdomain]"

definition createUserWebsiteDir :: "sys \<Rightarrow> string \<Rightarrow> string \<Rightarrow> state \<Rightarrow> (exn + path) \<times> state" where
  "createUserWebsiteDir y userId subdomain s =
     (case fs_mkdir (fs s) (getUserWebsiteDir y userId subdomain) of
        Inl e \<Rightarrow> (Inl (Error (fs_message e ''mkdir'' (getUserWebsiteDir y userId subdomain))), s)
      | Inr t \<Rightarrow> (Inr (getUserWebsiteDir y userId subdomain),
                 s\<lparr> fs := t, trace := trace s @ [FsMkdir (getUserWebsiteDir y userId subdomain)] \<rparr>))"

text \<open>The failure of \<^verbatim>\<open>fs.rm\<close> is caught and logged, never passed on.\<close>

definition deleteWebsiteDir :: "sys \<Rightarrow> string \<Rightarrow> string \<Rightarrow> state \<Rightarrow> state" where
  "deleteWebsiteDir y userId subdomain s =
     s\<lparr> fs := fst (fs_rm (fs s) (getUserWebsiteDir y userId subdomain)),
        trace := trace s @ [FsRm (getUserWebsiteDir y userId subdomain)] \<rparr>"

text \<open>
  The loop of \<^verbatim>\<open>clearWebsiteDir\<close>: it removes the entries one by one and stops at the
  first removal that fails, the failure being caught and logged around the whole loop.
  \<^verbatim>\<open>readdir\<close> returns the names of the entries, which are single segments, so joining
  one to the directory appends it. In this tree, which has no permissions, the removal
  of an entry of a directory that exists does not fail, so here the loop runs to its end.
\<close>

fun rm_items :: "path \<Rightarrow> state \<Rightarrow> string list \<Rightarrow> state" where
  "rm_items d s [] = s"
| "rm_items d s (x # xs) =
     (case fs_rm (fs s) (fst d @ [x], False) of
        (t, Some err) \<Rightarrow> s\<lparr> fs := t, trace := trace s @ [FsRm (fst d @ [x], False)] \<rparr>
      | (t, None) \<Rightarrow> rm_items d (s\<lparr> fs := t, trace := trace s @ [FsRm (fst d @ [x], False)] \<rparr>) xs)"

text \<open>A directory that cannot be read is left as it is.\<close>

definition clearWebsiteDir :: "sys \<Rightarrow> string \<Rightarrow> string \<Rightarrow> state \<Rightarrow> state" where
  "clearWebsiteDir y userId subdomain s =
     (case fs_readdir (fs s) (getUserWebsiteDir y userId subdomain) of
        Inl e \<Rightarrow> s
      | Inr items \<Rightarrow> rm_items (getUserWebsiteDir y userId subdomain) s items)"

text \<open>
  The command line handed to \<^verbatim>\<open>/bin/sh\<close> holds both paths as they are, between double
  quotes. Between double quotes the shell still expands the dollar sign, the backquote
  and the backslash, and a double quote ends the quotation.
\<close>

definition extract_command :: "path \<Rightarrow> path \<Rightarrow> string" where
  "extract_command websiteDir scriptPath =
     ''cd \"'' @ render websiteDir @ ''\" && unzip -o \"'' @ render scriptPath @ ''\"''"

definition command_failed :: "string \<Rightarrow> string \<Rightarrow> string" where
  "command_failed cmd err = ''Command failed: '' @ cmd @ [CHR 0x0A] @ err"

definition shell_special :: "char \<Rightarrow> bool" where
  "shell_special c = (c = CHR 0x24 \<or> c = CHR 0x60 \<or> c = CHR 0x5C \<or> c = CHR 0x22)"

definition shell_inert :: "string \<Rightarrow> bool" where
  "shell_inert a = list_all (\<lambda>c. \<not> shell_special c) a"

text \<open>
  \<^verbatim>\<open>execSync\<close> of the command. When neither path holds a character the shell expands,
  the shell changes into the first path and runs the decompressor on the second, as
  written; the command fails when the directory is missing and when the decompressor
  does, and whatever the decompressor has written by then stays. Otherwise the command
  is what the shell makes of it.
\<close>

definition execSync :: "sys \<Rightarrow> env \<Rightarrow> path \<Rightarrow> path \<Rightarrow> state \<Rightarrow> string option \<times> state" where
  "execSync y e websiteDir scriptPath s =
     (if shell_inert (render websiteDir) \<and> shell_inert (render scriptPath)
      then (case lookup (fs s) (fst websiteDir) of
              Some (Dir cs) \<Rightarrow>
                (case unzip y (render scriptPath) (fs s) cs of
                   (cs', failure) \<Rightarrow>
                     (map_option (command_failed (extract_command websiteDir scriptPath)) failure,
                      s\<lparr> fs := fs_put (fs s) (fst websiteDir) (Dir cs'),
                         trace := trace s @ [Exec (extract_command websiteDir scriptPath)] \<rparr>))
            | _ \<Rightarrow> (Some (command_failed (extract_command websiteDir scriptPath)
                            ''cd: no such directory''),
                    s\<lparr> trace := trace s @ [Exec (extract_command websiteDir scriptPath)] \<rparr>))
      else (case shell y (shellPid e) (extract_command websiteDir scriptPath) (fs s) of
              (t, failure) \<Rightarrow>
                (map_option (command_failed (extract_command websiteDir scriptPath)) failure,
                 s\<lparr> fs := t,
                    trace := trace s @ [Exec (extract_command websiteDir scriptPath)] \<rparr>)))"

definition extractScript ::
  "sys \<Rightarrow> env \<Rightarrow> string \<Rightarrow> string \<Rightarrow> string \<Rightarrow> state \<Rightarrow> (exn + unit) \<times> state" where
  "extractScript y e userId subdomain scriptName s =
     (case fs_mkdir (fs s) (getUserWebsiteDir y userId subdomain) of
        Inl c \<Rightarrow>
          (Inl (Error (''Failed to extract script: ''
                       @ fs_message c ''mkdir'' (getUserWebsiteDir y userId subdomain))), s)
      | Inr t \<Rightarrow>
          (case execSync y e (getUserWebsiteDir y userId subdomain)
                  (path_join (scriptsDir y) [scriptName])
                  (clearWebsiteDir y userId subdomain
                     (s\<lparr> fs := t,
                         trace := trace s @ [FsMkdir (getUserWebsiteDir y userId subdomain)] \<rparr>)) of
             (Some m, s') \<Rightarrow> (Inl (Error (''Failed to extract script: '' @ m)), s')
           | (None, s') \<Rightarrow> (Inr (), s')))"

definition scriptExists :: "sys \<Rightarrow> string \<Rightarrow> state \<Rightarrow> bool" where
  "scriptExists y scriptName s = fs_access (fs s) (path_join (scriptsDir y) [scriptName])"

definition deleteScript :: "sys \<Rightarrow> string \<Rightarrow> state \<Rightarrow> state" where
  "deleteScript y scriptName s =
     (case fs_unlink (fs s) (path_join (scriptsDir y) [scriptName]) of
        Inl e \<Rightarrow> s
      | Inr t \<Rightarrow> s\<lparr> fs := t, trace := trace s @ [FsUnlink (path_join (scriptsDir y) [scriptName])] \<rparr>)"

definition getWebsiteUrl :: "string \<Rightarrow> string" where
  "getWebsiteUrl subdomain = ''https://'' @ subdomain @ ''.yoursite.com''"


section \<open>The routes\<close>

text \<open>The body of a request is a JSON object: its keys with their values.\<close>

type_synonym jbody = "(string \<times> json) list"

datatype body =
  Message string
| ValidationError
| WebsiteJson "website option"
| ScriptChanged string "website option" string
| LogsJson "website_log list"

record response =
  status :: nat
  body :: body

definition subdomain_char :: "char \<Rightarrow> bool" where
  "subdomain_char c = (c \<in> set ''abcdefghijklmnopqrstuvwxyz0123456789-'')"

text \<open>An optional, nullable key of the schema; \<open>None\<close> when the value has another type.\<close>

fun zod_text :: "json option \<Rightarrow> string setting option" where
  "zod_text None = Some Keep"
| "zod_text (Some JNull) = Some SetNull"
| "zod_text (Some (JStr x)) = Some (SetTo x)"
| "zod_text (Some j) = None"

fun zod_bool :: "json option \<Rightarrow> bool setting option" where
  "zod_bool None = Some Keep"
| "zod_bool (Some JNull) = Some SetNull"
| "zod_bool (Some (JBool x)) = Some (SetTo x)"
| "zod_bool (Some j) = None"

fun zod_string :: "json option \<Rightarrow> string option" where
  "zod_string (Some (JStr x)) = Some x"
| "zod_string j = None"

text \<open>
  \<^verbatim>\<open>createWebsiteSchema.parse({ ...req.body, userId })\<close>: the caller's id replaces any
  \<^verbatim>\<open>userId\<close> of the body; the name must be a non-empty string, the subdomain a
  non-empty string matching \<^verbatim>\<open>/^[a-z0-9-]+$/\<close>; the other keys of the schema may be
  absent or \<^verbatim>\<open>null\<close>, and keys the schema does not know are dropped.
\<close>

definition createWebsiteSchema_parse :: "string \<Rightarrow> jbody \<Rightarrow> exn + insert_website" where
  "createWebsiteSchema_parse userId b =
     (case zod_string (map_of b ''name'') of
        None \<Rightarrow> Inl ZodError
      | Some n \<Rightarrow>
     (case zod_string (map_of b ''subdomain'') of
        None \<Rightarrow> Inl ZodError
      | Some d \<Rightarrow>
     (case zod_text (map_of b ''description'') of
        None \<Rightarrow> Inl ZodError
      | Some x \<Rightarrow>
     (case zod_text (map_of b ''currentScript'') of
        None \<Rightarrow> Inl ZodError
      | Some c \<Rightarrow>
     (case zod_bool (map_of b ''isActive'') of
        None \<Rightarrow> Inl ZodError
      | Some a \<Rightarrow>
          if n = [] \<or> d = [] \<or> \<not> list_all subdomain_char d then Inl ZodError
          else Inr \<lparr> i_userId = userId, i_name = n, i_subdomain = d,
                     i_description = x, i_currentScript = c, i_isActive = a \<rparr>)))))"

definition quota_message :: string where
  "quota_message = ''You can only create one website. Please delete your existing website first.''"

definition create_failed :: "exn \<Rightarrow> response" where
  "create_failed e =
     (case e of
        ZodError \<Rightarrow> \<lparr> status = 400, body = ValidationError \<rparr>
      | Error m \<Rightarrow> \<lparr> status = 500, body = Message ''Failed to create website'' \<rparr>)"

definition created_details :: "website \<Rightarrow> json" where
  "created_details w = JObj [(''name'', JStr (w_name w)), (''subdomain'', JStr (w_subdomain w))]"

text \<open>\<^verbatim>\<open>POST /api/websites\<close>\<close>

definition post_websites :: "sys \<Rightarrow> env \<Rightarrow> string \<Rightarrow> jbody \<Rightarrow> state \<Rightarrow> response \<times> state" where
  "post_websites y e userId b s =
     (if length (getUserWebsites y s userId) > 0
      then (\<lparr> status = 400, body = Message quota_message \<rparr>, s)
      else case createWebsiteSchema_parse userId b of
        Inl x \<Rightarrow> (create_failed x, s)
      | Inr v \<Rightarrow>
          (case getWebsiteBySubdomain s (i_subdomain v) of
             Some w \<Rightarrow> (\<lparr> status = 400, body = Message ''Subdomain already taken'' \<rparr>, s)
           | None \<Rightarrow>
               (case createUserWebsiteDir y userId (i_subdomain v) s of
                  (Inl x, s1) \<Rightarrow> (create_failed x, s1)
                | (Inr d, s1) \<Rightarrow>
                    (case createWebsite e v s1 of
                       (Inl x, s2) \<Rightarrow> (create_failed x, s2)
                     | (Inr w, s2) \<Rightarrow>
                         (case createWebsiteLog e (w_id w) ''created'' (created_details w) s2 of
                            (Inl x, s3) \<Rightarrow> (create_failed x, s3)
                          | (Inr l, s3) \<Rightarrow> (\<lparr> status = 201, body = WebsiteJson (Some w) \<rparr>, s3))))))"

definition not_found :: response where
  "not_found = \<lparr> status = 404, body = Message ''Website not found'' \<rparr>"

definition access_denied :: response where
  "access_denied = \<lparr> status = 403, body = Message ''Access denied'' \<rparr>"

text \<open>\<^verbatim>\<open>delete updateData.userId; delete updateData.subdomain\<close>\<close>

definition strip_body :: "jbody \<Rightarrow> jbody" where
  "strip_body b = AList.delete ''subdomain'' (AList.delete ''userId'' b)"

text \<open>\<^verbatim>\<open>PATCH /api/websites/:id\<close>; the log entry is written for the id the row had before.\<close>

definition patch_website ::
  "sys \<Rightarrow> env \<Rightarrow> string \<Rightarrow> string \<Rightarrow> jbody \<Rightarrow> state \<Rightarrow> response \<times> state" where
  "patch_website y e userId i b s =
     (case getWebsite s i of
        None \<Rightarrow> (not_found, s)
      | Some w \<Rightarrow>
          if w_userId w \<noteq> userId then (access_denied, s)
          else (case updateWebsite y e i (strip_body b) s of
                  (Inl x, s1) \<Rightarrow> (\<lparr> status = 500, body = Message ''Failed to update website'' \<rparr>, s1)
                | (Inr updated, s1) \<Rightarrow>
                    (case createWebsiteLog e (w_id w) ''updated'' (JObj (strip_body b)) s1 of
                       (Inl x, s2) \<Rightarrow>
                         (\<lparr> status = 500, body = Message ''Failed to update website'' \<rparr>, s2)
                     | (Inr l, s2) \<Rightarrow> (\<lparr> status = 200, body = WebsiteJson updated \<rparr>, s2))))"

text \<open>\<^verbatim>\<open>DELETE /api/websites/:id\<close>\<close>

definition delete_website :: "sys \<Rightarrow> string \<Rightarrow> string \<Rightarrow> state \<Rightarrow> response \<times> state" where
  "delete_website y userId i s =
     (case getWebsite s i of
        None \<Rightarrow> (not_found, s)
      | Some w \<Rightarrow>
          if w_userId w \<noteq> userId then (access_denied, s)
          else (\<lparr> status = 200, body = Message ''Website deleted successfully'' \<rparr>,
                deleteWebsite i (deleteWebsiteDir y userId (w_subdomain w) s)))"

definition script_update :: "string \<Rightarrow> jbody" where
  "script_update scriptName = [(''currentScript'', JStr scriptName)]"

definition script_details :: "string option \<Rightarrow> string \<Rightarrow> json" where
  "script_details old new =
     JObj [(''oldScript'', (case old of None \<Rightarrow> JNull | Some x \<Rightarrow> JStr x)),
           (''newScript'', JStr new)]"

text \<open>\<^verbatim>\<open>POST /api/websites/:id/change-script\<close>\<close>

definition post_change_script ::
  "sys \<Rightarrow> env \<Rightarrow> string \<Rightarrow> string \<Rightarrow> string \<Rightarrow> state \<Rightarrow> response \<times> state" where
  "post_change_script y e userId i scriptName s =
     (if scriptName = [] then (\<lparr> status = 400, body = Message ''Script name is required'' \<rparr>, s)
      else case getWebsite s i of
        None \<Rightarrow> (not_found, s)
      | Some w \<Rightarrow>
          if w_userId w \<noteq> userId then (access_denied, s)
          else if \<not> scriptExists y scriptName s
          then (\<lparr> status = 404, body = Message ''Script not found'' \<rparr>, s)
          else (case extractScript y e userId (w_subdomain w) scriptName s of
                  (Inl x, s1) \<Rightarrow> (\<lparr> status = 500, body = Message ''Failed to change script'' \<rparr>, s1)
                | (Inr u, s1) \<Rightarrow>
                    (case updateWebsite y e i (script_update scriptName) s1 of
                       (Inl x, s2) \<Rightarrow>
                         (\<lparr> status = 500, body = Message ''Failed to change script'' \<rparr>, s2)
                     | (Inr updated, s2) \<Rightarrow>
                         (case createWebsiteLog e (w_id w) ''script_changed''
                                 (script_details (w_currentScript w) scriptName) s2 of
                            (Inl x, s3) \<Rightarrow>
                              (\<lparr> status = 500, body = Message ''Failed to change script'' \<rparr>, s3)
                          | (Inr l, s3) \<Rightarrow>
                              (\<lparr> status = 200,
                                 body = ScriptChanged ''Script changed successfully'' updated
                                          (getWebsiteUrl (w_subdomain w)) \<rparr>, s3)))))"

text \<open>\<^verbatim>\<open>GET /api/websites/:id/logs\<close>\<close>

definition get_website_logs :: "sys \<Rightarrow> string \<Rightarrow> string \<Rightarrow> state \<Rightarrow> response" where
  "get_website_logs y userId i s =
     (case getWebsite s i of
        None \<Rightarrow> not_found
      | Some w \<Rightarrow>
          if w_userId w \<noteq> userId then access_denied
          else \<lparr> status = 200, body = LogsJson (getWebsiteLogs y s i) \<rparr>)"

text \<open>\<^verbatim>\<open>DELETE /api/scripts/:id\<close>; the caller's id is read by no line of the handler.\<close>

definition delete_script :: "sys \<Rightarrow> string \<Rightarrow> string \<Rightarrow> state \<Rightarrow> response \<times> state" where
  "delete_script y userId i s =
     (case getScriptTemplate s i of
        None \<Rightarrow> (\<lparr> status = 404, body = Message ''Script template not found'' \<rparr>, s)
      | Some t \<Rightarrow>
          (\<lparr> status = 200, body = Message ''Script template deleted successfully'' \<rparr>,
           deleteScriptTemplate i (deleteScript y (t_fileName t) s)))"

section \<open>Requests and runs\<close>













definition owned :: "state \<Rightarrow> string \<Rightarrow> website list" where
  "owned s userId = filter (\<lambda>w. w_userId w = userId) (websites s)"

section \<open>A sample installation\<close>

fun digits :: "nat \<Rightarrow> string" where
  "digits n =
     (if n < 10 then [''0123456789'' ! n]
      else digits (n div 10) @ [''0123456789'' ! (n mod 10)])"

definition sample_store :: "string list" where
  "sample_store = [''srv'', ''app'', ''allscripts'']"

definition sample_dir :: path where
  "sample_dir = ([''srv'', ''app'', ''user_websites'', ''u1'', ''alice-site''], False)"

text \<open>
  A decompressor that reads the file named by its argument: one archive holds a page,
  one holds a file and then a damaged entry, and anything else is no archive.
\<close>

definition sample_unzip ::
  "string \<Rightarrow> node \<Rightarrow> (string \<times> node) list \<Rightarrow> (string \<times> node) list \<times> string option" where
  "sample_unzip arg t cs =
     (case (if ends_with_separator arg then None else lookup t (normalize_path (segments arg))) of
        Some (File bytes) \<Rightarrow>
          if bytes = ''PK:index''
          then (AList.update ''index.html'' (File ''<h1>Alice</h1>'') cs, None)
          else if bytes = ''PK:partial''
          then (AList.update ''a.txt'' (File ''a'') cs, Some ''bad CRC'')
          else (cs, Some ''End-of-central-directory signature not found'')
      | _ \<Rightarrow> (cs, Some ''cannot find or open the archive''))"

text \<open>
  Two template names with a command substitution in them. In the first the shell runs
  \<^verbatim>\<open>touch stamp-$$\<close> in the website directory and the name that is left is that of the
  page archive; in the second it runs \<^verbatim>\<open>touch pwned\<close> and the name that is left is that
  of no file.
\<close>

definition stamp_name :: string where
  "stamp_name = ''b$(touch stamp-$$)asic.zip''"

definition pwned_name :: string where
  "pwned_name = ''x$(touch pwned).zip''"

definition sample_shell :: "nat \<Rightarrow> string \<Rightarrow> node \<Rightarrow> node \<times> string option" where
  "sample_shell pid cmd t =
     (case lookup t (fst sample_dir) of
        Some (Dir cs) \<Rightarrow>
          if cmd = extract_command sample_dir (sample_store @ [stamp_name], False)
          then (case sample_unzip ''/srv/app/allscripts/basic.zip'' t
                       (AList.update (''stamp-'' @ digits pid) (File []) cs) of
                  (cs', failure) \<Rightarrow> (fs_put t (fst sample_dir) (Dir cs'), failure))
          else if cmd = extract_command sample_dir (sample_store @ [pwned_name], False)
          then (case sample_unzip ''/srv/app/allscripts/x.zip'' t
                       (AList.update ''pwned'' (File []) cs) of
                  (cs', failure) \<Rightarrow> (fs_put t (fst sample_dir) (Dir cs'), failure))
          else (t, Some ''sh: 1: Syntax error'')
      | _ \<Rightarrow> (t, Some ''sh: 1: cd: no such directory''))"

definition sample_sys :: sys where
  "sample_sys =
     \<lparr> cwd = [''srv'', ''app''], unzip = sample_unzip, shell = sample_shell,
       text_param = (\<lambda>j. None), bool_param = (\<lambda>j. None), time_param = (\<lambda>j. None),
       website_rank = (\<lambda>w. 0), log_rank = (\<lambda>l. 0) \<rparr>"

definition sample_fs :: node where
  "sample_fs =
     Dir [(''srv'', Dir [
       (''app'', Dir [
          (''user_websites'', Dir [(''u1'', Dir [(''alice-site'', Dir [(''old.html'', File ''old'')])]),
                                  (''u3'', File ''stray'')]),
          (''allscripts'', Dir [(''basic.zip'', File ''PK:index''),
                               (''partial.zip'', File ''PK:partial''),
                               (''broken.zip'', File ''garbage''),
                               (stamp_name, File ''PK:index''),
                               (pwned_name, File ''PK:index'')])]),
       (''outside.zip'', File ''PK:index'')])]"

definition alice_site :: website where
  "alice_site =
     \<lparr> w_id = ''w1'', w_userId = ''u1'', w_name = ''Alice Site'', w_subdomain = ''alice-site'',
       w_description = None, w_currentScript = None, w_isActive = Some True,
       w_createdAt = Some 1, w_updatedAt = 1 \<rparr>"

definition alice_log :: website_log where
  "alice_log =
     \<lparr> l_id = ''l1'', l_websiteId = ''w1'', l_action = ''created'',
       l_details = JObj [(''name'', JStr ''Alice Site''), (''subdomain'', JStr ''alice-site'')],
       l_createdAt = 1 \<rparr>"

definition basic_template :: script_template where
  "basic_template =
     \<lparr> t_id = ''t1'', t_name = ''basic'', t_displayName = ''Basic'', t_description = None,
       t_version = Some ''1.0.0'', t_fileName = ''basic.zip'', t_isActive = Some True,
       t_createdAt = 0, t_updatedAt = 0 \<rparr>"

definition sample_state :: state where
  "sample_state =
     \<lparr> fs = sample_fs, websites = [alice_site], websiteLogs = [alice_log],
       scriptTemplates = [basic_template], trace = [] \<rparr>"

definition empty_state :: state where
  "empty_state =
     \<lparr> fs = sample_fs, websites = [], websiteLogs = [],
       scriptTemplates = [basic_template], trace = [] \<rparr>"

definition sample_env :: env where
  "sample_env = \<lparr> now = 5, websiteUuid = ''w2'', logUuid = ''l2'', shellPid = 4242 \<rparr>"

definition later_env :: env where
  "later_env = \<lparr> now = 9, websiteUuid = ''w3'', logUuid = ''l3'', shellPid = 4243 \<rparr>"

definition last_env :: env where
  "last_env = \<lparr> now = 12, websiteUuid = ''w4'', logUuid = ''l4'', shellPid = 4244 \<rparr>"

definition alice_body :: jbody where
  "alice_body =
     [(''userId'', JStr ''mallory''), (''name'', JStr ''Alice Site''),
      (''subdomain'', JStr ''alice-site'')]"

definition bob_body :: jbody where
  "bob_body = [(''name'', JStr ''Bob Site''), (''subdomain'', JStr ''bob-site'')]"

section \<open>Lookups after the filesystem operations\<close>


lemma mkdir_at_lookup:
  "mkdir_at t p = Inr t' \<Longrightarrow> \<exists>es. lookup t' p = Some (Dir es)"
proof (induction p arbitrary: t t')
  case Nil
  then show ?case by (cases t) auto
next
  case (Cons s p)
  then show ?case
    by (cases t) (auto split: sum.splits simp: update_conv')
qed


lemma lookup_empty_dir: "p \<noteq> [] \<Longrightarrow> lookup (Dir []) p = None"
  by (cases p) simp_all

lemma mkdir_at_new:
  "lookup t p = None \<Longrightarrow> mkdir_at t p = Inr t' \<Longrightarrow> lookup t' p = Some (Dir [])"
proof (induction p arbitrary: t t')
  case Nil
  then show ?case by simp
next
  case (Cons s p)
  show ?case
  proof (cases t)
    case (File b)
    with Cons.prems show ?thesis by simp
  next
    case (Dir es)
    show ?thesis
    proof (cases "map_of es s")
      case None
      with Cons.prems Dir obtain c' where c: "mkdir_at (Dir []) p = Inr c'" and t': "t' = Dir (AList.update s c' es)"
        by (auto split: sum.splits)
      have "lookup c' p = Some (Dir [])"
      proof (cases "p = []")
        case True
        with c show ?thesis by simp
      next
        case False
        then have "lookup (Dir []) p = None" by (rule lookup_empty_dir)
        from Cons.IH[OF this c] show ?thesis .
      qed
      with t' show ?thesis by (simp add: update_conv')
    next
      case (Some c)
      with Cons.prems Dir obtain c' where c: "mkdir_at c p = Inr c'" and t': "t' = Dir (AList.update s c' es)"
        by (auto split: sum.splits)
      from Cons.prems Dir Some have "lookup c p = None" by simp
      from Cons.IH[OF this c] t' show ?thesis by (simp add: update_conv')
    qed
  qed
qed







lemma rm_at_gone:
  "p \<noteq> [] \<Longrightarrow> lookup (rm_at t p) p = None"
proof (induction p arbitrary: t)
  case Nil
  then show ?case by simp
next
  case (Cons s p)
  then show ?case
    by (cases t) (auto split: option.splits simp: update_conv' delete_conv')
qed










subsection \<open>Resolving a path\<close>

lemma resolve_step_plain:
  assumes "list_all plain_segment acc"
  shows "list_all plain_segment (resolve_step acc x)"
proof (cases "plain_segment x")
  case True
  then have "resolve_step acc x = x # acc"
    by (simp add: resolve_step_def plain_segment_def)
  with True assms show ?thesis by simp
next
  case False
  then have "resolve_step acc x = acc \<or> resolve_step acc x = tl acc"
    by (auto simp: resolve_step_def plain_segment_def)
  moreover have "list_all plain_segment (tl acc)"
    using assms by (cases acc) simp_all
  ultimately show ?thesis using assms by auto
qed

lemma resolve_plain:
  "list_all plain_segment acc \<Longrightarrow> list_all plain_segment (foldl resolve_step acc segs)"
  by (induction segs arbitrary: acc) (simp_all add: resolve_step_plain)

lemma resolve_plain_segments:
  "list_all plain_segment segs \<Longrightarrow> foldl resolve_step acc segs = rev segs @ acc"
proof (induction segs arbitrary: acc)
  case Nil
  then show ?case by simp
next
  case (Cons x segs)
  then have "resolve_step acc x = x # acc"
    by (simp add: resolve_step_def plain_segment_def)
  with Cons show ?case by simp
qed

lemma normalize_path_plain: "list_all plain_segment (normalize_path segs)"
  using resolve_plain[of "[]" segs] by (simp add: normalize_path_def)

lemma scriptsDir_shape: "scriptsDir y = (normalize_path (cwd y) @ [''allscripts''], False)"
  by (simp add: scriptsDir_def path_join_def normalize_path_def resolve_step_def ends_with_separator_def)



lemma escape_of_scriptsDir:
  "path_join (scriptsDir y) [''../outside.zip''] = (normalize_path (cwd y) @ [''outside.zip''], False)"
proof -
  let ?A = "normalize_path (cwd y)"
  have c: "list_all plain_segment (?A @ [''allscripts''])"
    using normalize_path_plain[of "cwd y"] by (simp add: plain_segment_def)
  have "foldl resolve_step [] ((?A @ [''allscripts'']) @ [''..'', ''outside.zip''])
          = foldl resolve_step (foldl resolve_step [] (?A @ [''allscripts''])) [''..'', ''outside.zip'']"
    by (simp only: foldl_append)
  also have "\<dots> = foldl resolve_step (''allscripts'' # rev ?A) [''..'', ''outside.zip'']"
    by (simp only: resolve_plain_segments[OF c]) simp
  also have "\<dots> = ''outside.zip'' # rev ?A"
    by (simp add: resolve_step_def)
  finally have "normalize_path ((?A @ [''allscripts'']) @ [''..'', ''outside.zip'']) = ?A @ [''outside.zip'']"
    by (simp add: normalize_path_def)
  then show ?thesis
    by (simp add: path_join_def scriptsDir_shape ends_with_separator_def)
qed

subsection \<open>Deleting a template\<close>

lemma find_filter_other:
  "find (\<lambda>t. t_id t = i) (filter (\<lambda>t. t_id t \<noteq> i) ts) = None"
  by (induction ts) auto

lemma fs_unlink_removes:
  "fst p \<noteq> [] \<Longrightarrow> fs_unlink t p = Inr t' \<Longrightarrow> lookup t' (fst p) = None"
  by (auto simp: fs_unlink_def rm_at_gone split: option.splits node.splits if_splits)

lemma fs_unlink_refused:
  "fs_unlink t p = Inl c \<Longrightarrow> fst p \<noteq> [] \<Longrightarrow> \<not> is_file t p"
  by (auto simp: fs_unlink_def is_file_def split: option.splits node.splits if_splits)

lemma deleteScript_removes:
  "fst (path_join (scriptsDir y) [n]) \<noteq> [] \<Longrightarrow>
   \<not> is_file (fs (deleteScript y n s)) (path_join (scriptsDir y) [n])"
proof (cases "fs_unlink (fs s) (path_join (scriptsDir y) [n])")
  case (Inl c)
  assume "fst (path_join (scriptsDir y) [n]) \<noteq> []"
  with Inl show ?thesis by (simp add: deleteScript_def fs_unlink_refused)
next
  case (Inr t')
  assume "fst (path_join (scriptsDir y) [n]) \<noteq> []"
  with Inr show ?thesis by (simp add: deleteScript_def is_file_def fs_unlink_removes)
qed

section \<open>Extracting a template\<close>










section \<open>Facts about the storage\<close>


lemma find_None_list_ex: "find P xs = None \<longleftrightarrow> \<not> list_ex P xs"
  by (induction xs) auto





lemma strip_body_keys:
  "map_of (strip_body b) ''userId'' = None" "map_of (strip_body b) ''subdomain'' = None"
  by (simp_all add: strip_body_def delete_conv')

lemma bind_set_keeps:
  assumes "map_of u ''userId'' = None" and "map_of u ''subdomain'' = None"
    and "bind_set y u = Some c"
  shows "c_userId c = Keep \<and> c_subdomain c = Keep"
  using assms by (auto simp: bind_set_def bind_eq_Some_conv)

lemma update_rows_keys:
  assumes "c_userId c = Keep" and "c_subdomain c = Keep"
  shows "map (\<lambda>w. (w_userId w, w_subdomain w)) (update_rows t i c ws)
           = map (\<lambda>w. (w_userId w, w_subdomain w)) ws"
  using assms by (induction ws) (auto simp: update_rows_def set_row_def required_def)

text \<open>An update whose object has neither key changes no row's owner or subdomain.\<close>

lemma updateWebsite_keys:
  assumes "map_of u ''userId'' = None" and "map_of u ''subdomain'' = None"
  shows "map (\<lambda>w. (w_userId w, w_subdomain w)) (websites (snd (updateWebsite y e i u s)))
           = map (\<lambda>w. (w_userId w, w_subdomain w)) (websites s)"
proof (cases "bind_set y u")
  case None
  then show ?thesis by (simp add: updateWebsite_def)
next
  case (Some c)
  from bind_set_keeps[OF assms Some] have "c_userId c = Keep" "c_subdomain c = Keep"
    by simp_all
  from update_rows_keys[OF this] Some show ?thesis
    by (simp add: updateWebsite_def)
qed

section \<open>Facts about the routes\<close>

subsection \<open>Changing the script\<close>








subsection \<open>Creating a website\<close>

lemma getUserWebsites_length: "length (getUserWebsites y s u) = length (owned s u)"
  by (simp add: getUserWebsites_def owned_def order_by_desc_def)

lemma getUserWebsites_owned: "getUserWebsites y s u = [] \<longleftrightarrow> owned s u = []"
  using getUserWebsites_length[of y s u] by (metis length_0_conv)

text \<open>The creation handler once its three preconditions hold.\<close>

lemma post_websites_checked:
  assumes "owned s userId = []" and "createWebsiteSchema_parse userId b = Inr v"
    and "getWebsiteBySubdomain s (i_subdomain v) = None"
  shows "post_websites y e userId b s =
     (case fs_mkdir (fs s) (getUserWebsiteDir y userId (i_subdomain v)) of
        Inl c \<Rightarrow> (\<lparr> status = 500, body = Message ''Failed to create website'' \<rparr>, s)
      | Inr t \<Rightarrow>
          if list_ex (\<lambda>w. w_id w = websiteUuid e) (websites s)
          then (\<lparr> status = 500, body = Message ''Failed to create website'' \<rparr>,
                s\<lparr> fs := t, trace := trace s @ [FsMkdir (getUserWebsiteDir y userId (i_subdomain v))] \<rparr>)
          else if list_ex (\<lambda>l. l_id l = logUuid e) (websiteLogs s)
          then (\<lparr> status = 500, body = Message ''Failed to create website'' \<rparr>,
                s\<lparr> fs := t, websites := websites s @ [new_website e v],
                   trace := trace s @ [FsMkdir (getUserWebsiteDir y userId (i_subdomain v)),
                                       DbInsertWebsite (new_website e v)] \<rparr>)
          else (\<lparr> status = 201, body = WebsiteJson (Some (new_website e v)) \<rparr>,
                s\<lparr> fs := t, websites := websites s @ [new_website e v],
                   websiteLogs := websiteLogs s @
                     [new_log e (websiteUuid e) ''created'' (created_details (new_website e v))],
                   trace := trace s @ [FsMkdir (getUserWebsiteDir y userId (i_subdomain v)),
                                       DbInsertWebsite (new_website e v),
                                       DbInsertLog (new_log e (websiteUuid e) ''created''
                                          (created_details (new_website e v)))] \<rparr>))"
proof -
  have free: "\<not> list_ex (\<lambda>w. w_subdomain w = i_subdomain v) (websites s)"
    using assms(3) by (simp add: getWebsiteBySubdomain_def find_None_list_ex)
  have q: "getUserWebsites y s userId = []"
    using assms(1) by (simp add: getUserWebsites_owned)
  have i: "w_id (new_website e v) = websiteUuid e"
    by (simp add: new_website_def)
  show ?thesis
    using assms(2,3) free q i
    by (simp add: post_websites_def createUserWebsiteDir_def createWebsite_def createWebsiteLog_def
        create_failed_def fs_mkdir_def split: sum.splits)
qed









subsection \<open>Updating and deleting a website\<close>


lemma patch_website_keys:
  "map (\<lambda>w. (w_userId w, w_subdomain w)) (websites (snd (patch_website y e u i b s)))
     = map (\<lambda>w. (w_userId w, w_subdomain w)) (websites s)"
proof (cases "getWebsite s i")
  case None
  then show ?thesis by (simp add: patch_website_def)
next
  case (Some w)
  show ?thesis
  proof (cases "w_userId w = u")
    case False
    with Some show ?thesis by (simp add: patch_website_def)
  next
    case True
    obtain a s1 where x: "updateWebsite y e i (strip_body b) s = (a, s1)"
      by (cases "updateWebsite y e i (strip_body b) s")
    have k: "map (\<lambda>w. (w_userId w, w_subdomain w)) (websites s1)
               = map (\<lambda>w. (w_userId w, w_subdomain w)) (websites s)"
      using updateWebsite_keys[OF strip_body_keys, where y = y and e = e and i = i and s = s and b1 = b] x
      by simp
    show ?thesis
      using Some True x k
      by (cases a) (simp_all add: patch_website_def createWebsiteLog_def)
  qed
qed




section \<open>Runs of requests\<close>

subsection \<open>Owners\<close>


lemma owners_of_keys:
  "map (\<lambda>w. (w_userId w, w_subdomain w)) ws' = map (\<lambda>w. (w_userId w, w_subdomain w)) ws \<Longrightarrow>
   map w_userId ws' = map w_userId ws \<and> map w_subdomain ws' = map w_subdomain ws"
proof -
  assume a: "map (\<lambda>w. (w_userId w, w_subdomain w)) ws' = map (\<lambda>w. (w_userId w, w_subdomain w)) ws"
  have "map fst (map (\<lambda>w. (w_userId w, w_subdomain w)) ws') = map fst (map (\<lambda>w. (w_userId w, w_subdomain w)) ws)"
    using a by simp
  moreover have "map snd (map (\<lambda>w. (w_userId w, w_subdomain w)) ws') = map snd (map (\<lambda>w. (w_userId w, w_subdomain w)) ws)"
    using a by simp
  ultimately show ?thesis by (simp add: comp_def)
qed









subsection \<open>Subdomains\<close>








subsection \<open>The log of a website\<close>













section \<open>Evaluating the sample installation\<close>

lemmas path_defs =
  path_join_def normalize_path_def resolve_step_def baseDir_def scriptsDir_def
  getUserWebsiteDir_def render_def ends_with_separator_def

lemmas sample_defs =
  sample_sys_def sample_fs_def sample_state_def empty_state_def sample_env_def later_env_def
  last_env_def alice_site_def alice_log_def basic_template_def alice_body_def bob_body_def
  sample_unzip_def sample_shell_def sample_store_def sample_dir_def stamp_name_def pwned_name_def

lemmas eval_defs =
  post_change_script_def post_websites_def patch_website_def delete_website_def delete_script_def
  get_website_logs_def scriptExists_def fs_access_def extractScript_def execSync_def
  clearWebsiteDir_def fs_readdir_def fs_mkdir_def fs_rm_def createUserWebsiteDir_def
  deleteWebsiteDir_def deleteScript_def fs_unlink_def getWebsite_def getWebsiteBySubdomain_def
  getUserWebsites_def order_by_desc_def getScriptTemplate_def createWebsite_def updateWebsite_def
  bind_set_def update_rows_def set_row_def required_def nullable_def not_null_violated_def
  orphaned_def deleteWebsite_def deleteScriptTemplate_def createWebsiteLog_def new_website_def
  new_log_def createWebsiteSchema_parse_def subdomain_char_def strip_body_def script_update_def
  script_details_def created_details_def not_found_def access_denied_def create_failed_def
  getWebsiteUrl_def getWebsiteLogs_def logs_of_def extract_command_def command_failed_def
  shell_inert_def shell_special_def

section \<open>The claims\<close>







text \<open>
  C3. A creation request that passes its three preconditions (the caller owns no
  website, the body is valid, the subdomain is free) performs its side effects in one
  order: it makes the website directory, then inserts the website row, then appends the
  log entry with action \<^verbatim>\<open>created\<close>. The trace grows by a prefix of these three
  effects, and by all three when the answer is 201; the directory then exists, empty if
  nothing stood at its path before, the new row is the last of the table and the new
  entry the last of the log. When the directory cannot be made the answer is 500 and the
  state is unchanged: no row is inserted and no entry is appended. When it can be made
  and the two ids drawn are not in use, the answer is 201.
\<close>

theorem create_website_effects:
  assumes "getUserWebsites y s userId = []" and "createWebsiteSchema_parse userId b = Inr v"
    and "getWebsiteBySubdomain s (i_subdomain v) = None"
  shows "(\<exists>k. trace (snd (post_websites y e userId b s)) = trace s @
            take k [FsMkdir (getUserWebsiteDir y userId (i_subdomain v)),
                    DbInsertWebsite (new_website e v),
                    DbInsertLog (new_log e (websiteUuid e) ''created''
                       (created_details (new_website e v)))])
       \<and> (status (fst (post_websites y e userId b s)) = 201 \<longrightarrow>
            trace (snd (post_websites y e userId b s)) = trace s @
              [FsMkdir (getUserWebsiteDir y userId (i_subdomain v)),
               DbInsertWebsite (new_website e v),
               DbInsertLog (new_log e (websiteUuid e) ''created''
                  (created_details (new_website e v)))]
            \<and> fs_mkdir (fs s) (getUserWebsiteDir y userId (i_subdomain v))
                 = Inr (fs (snd (post_websites y e userId b s)))
            \<and> (\<exists>es. lookup (fs (snd (post_websites y e userId b s)))
                       (fst (getUserWebsiteDir y userId (i_subdomain v))) = Some (Dir es))
            \<and> (lookup (fs s) (fst (getUserWebsiteDir y userId (i_subdomain v))) = None \<longrightarrow>
                 lookup (fs (snd (post_websites y e userId b s)))
                   (fst (getUserWebsiteDir y userId (i_subdomain v))) = Some (Dir []))
            \<and> websites (snd (post_websites y e userId b s)) = websites s @ [new_website e v]
            \<and> websiteLogs (snd (post_websites y e userId b s)) = websiteLogs s @
                 [new_log e (websiteUuid e) ''created'' (created_details (new_website e v))])
       \<and> ((\<exists>c. fs_mkdir (fs s) (getUserWebsiteDir y userId (i_subdomain v)) = Inl c) \<longrightarrow>
            post_websites y e userId b s
              = (\<lparr> status = 500, body = Message ''Failed to create website'' \<rparr>, s))
       \<and> ((\<exists>t. fs_mkdir (fs s) (getUserWebsiteDir y userId (i_subdomain v)) = Inr t)
            \<and> \<not> list_ex (\<lambda>w. w_id w = websiteUuid e) (websites s)
            \<and> \<not> list_ex (\<lambda>l. l_id l = logUuid e) (websiteLogs s) \<longrightarrow>
            status (fst (post_websites y e userId b s)) = 201)"
proof -
  have q: "owned s userId = []"
    using assms(1) by (simp add: getUserWebsites_owned)
  note p = post_websites_checked[OF q assms(2,3), of y e]
  let ?d = "getUserWebsiteDir y userId (i_subdomain v)"
  let ?T = "[FsMkdir ?d, DbInsertWebsite (new_website e v),
             DbInsertLog (new_log e (websiteUuid e) ''created'' (created_details (new_website e v)))]"
  let ?s' = "snd (post_websites y e userId b s)"
  have "trace ?s' = trace s @ take 0 ?T \<or> trace ?s' = trace s @ take 1 ?T
      \<or> trace ?s' = trace s @ take 2 ?T \<or> trace ?s' = trace s @ take 3 ?T"
    unfolding p by (simp split: sum.splits)
  then have order: "\<exists>k. trace ?s' = trace s @ take k ?T"
    by blast
  have made: "status (fst (post_websites y e userId b s)) = 201 \<longrightarrow>
       fs_mkdir (fs s) ?d = Inr (fs ?s')"
    unfolding p by (simp split: sum.splits)
  have dir: "status (fst (post_websites y e userId b s)) = 201 \<longrightarrow>
       (\<exists>es. lookup (fs ?s') (fst ?d) = Some (Dir es))
       \<and> (lookup (fs s) (fst ?d) = None \<longrightarrow> lookup (fs ?s') (fst ?d) = Some (Dir []))"
    using made mkdir_at_lookup[of "fs s" "fst ?d" "fs ?s'"] mkdir_at_new[of "fs s" "fst ?d" "fs ?s'"]
    by (simp add: fs_mkdir_def)
  have rest: "(status (fst (post_websites y e userId b s)) = 201 \<longrightarrow>
            trace ?s' = trace s @ ?T
            \<and> websites ?s' = websites s @ [new_website e v]
            \<and> websiteLogs ?s' = websiteLogs s @
                 [new_log e (websiteUuid e) ''created'' (created_details (new_website e v))])
       \<and> ((\<exists>c. fs_mkdir (fs s) ?d = Inl c) \<longrightarrow>
            post_websites y e userId b s
              = (\<lparr> status = 500, body = Message ''Failed to create website'' \<rparr>, s))
       \<and> ((\<exists>t. fs_mkdir (fs s) ?d = Inr t)
            \<and> \<not> list_ex (\<lambda>w. w_id w = websiteUuid e) (websites s)
            \<and> \<not> list_ex (\<lambda>l. l_id l = logUuid e) (websiteLogs s) \<longrightarrow>
            status (fst (post_websites y e userId b s)) = 201)"
    unfolding p by (simp split: sum.splits)
  from order made dir rest show ?thesis by blast
qed

theorem create_website_effects_witness:
  "getUserWebsites sample_sys sample_state ''u2'' = []
   \<and> getWebsiteBySubdomain sample_state ''bob-site'' = None
   \<and> lookup (fs sample_state) [''srv'', ''app'', ''user_websites'', ''u2'', ''bob-site''] = None
   \<and> status (fst (post_websites sample_sys sample_env ''u2'' bob_body sample_state)) = 201
   \<and> trace (snd (post_websites sample_sys sample_env ''u2'' bob_body sample_state)) =
       [FsMkdir ([''srv'', ''app'', ''user_websites'', ''u2'', ''bob-site''], False),
        DbInsertWebsite (alice_site\<lparr> w_id := ''w2'', w_userId := ''u2'', w_name := ''Bob Site'',
           w_subdomain := ''bob-site'', w_createdAt := Some 5, w_updatedAt := 5 \<rparr>),
        DbInsertLog \<lparr> l_id = ''l2'', l_websiteId = ''w2'', l_action = ''created'',
           l_details = JObj [(''name'', JStr ''Bob Site''), (''subdomain'', JStr ''bob-site'')],
           l_createdAt = 5 \<rparr>]
   \<and> lookup (fs (snd (post_websites sample_sys sample_env ''u2'' bob_body sample_state)))
        [''srv'', ''app'', ''user_websites'', ''u2'', ''bob-site''] = Some (Dir [])
   \<and> getUserWebsites sample_sys sample_state ''u3'' = []
   \<and> post_websites sample_sys sample_env ''u3'' bob_body sample_state
       = (\<lparr> status = 500, body = Message ''Failed to create website'' \<rparr>, sample_state)"
proof -
  let ?v = "\<lparr> i_userId = ''u2'', i_name = ''Bob Site'', i_subdomain = ''bob-site'',
              i_description = Keep, i_currentScript = Keep, i_isActive = Keep \<rparr>"
  let ?v3 = "\<lparr> i_userId = ''u3'', i_name = ''Bob Site'', i_subdomain = ''bob-site'',
              i_description = Keep, i_currentScript = Keep, i_isActive = Keep \<rparr>"
  let ?P = "post_websites sample_sys sample_env ''u2'' bob_body sample_state"
  have q: "getUserWebsites sample_sys sample_state ''u2'' = []"
    and q3: "getUserWebsites sample_sys sample_state ''u3'' = []"
    by (simp_all add: getUserWebsites_def order_by_desc_def sample_defs)
  have v: "createWebsiteSchema_parse ''u2'' bob_body = Inr ?v"
    and v3: "createWebsiteSchema_parse ''u3'' bob_body = Inr ?v3"
    by (simp_all add: createWebsiteSchema_parse_def subdomain_char_def sample_defs)
  have f: "getWebsiteBySubdomain sample_state (i_subdomain ?v) = None"
    and f3: "getWebsiteBySubdomain sample_state (i_subdomain ?v3) = None"
    by (simp_all add: getWebsiteBySubdomain_def sample_defs)
  have d: "getUserWebsiteDir sample_sys ''u2'' ''bob-site''
             = ([''srv'', ''app'', ''user_websites'', ''u2'', ''bob-site''], False)"
    and d3: "getUserWebsiteDir sample_sys ''u3'' ''bob-site''
             = ([''srv'', ''app'', ''user_websites'', ''u3'', ''bob-site''], False)"
    by (simp_all add: path_defs sample_defs)
  have n: "lookup (fs sample_state) [''srv'', ''app'', ''user_websites'', ''u2'', ''bob-site''] = None"
    by (simp add: sample_defs)
  have m: "\<exists>t. fs_mkdir (fs sample_state) (getUserWebsiteDir sample_sys ''u2'' (i_subdomain ?v)) = Inr t"
    by (simp add: fs_mkdir_def path_defs sample_defs)
  have m3: "\<exists>c. fs_mkdir (fs sample_state) (getUserWebsiteDir sample_sys ''u3'' (i_subdomain ?v3)) = Inl c"
    by (simp add: fs_mkdir_def path_defs sample_defs)
  have u: "\<not> list_ex (\<lambda>w. w_id w = websiteUuid sample_env) (websites sample_state)
         \<and> \<not> list_ex (\<lambda>l. l_id l = logUuid sample_env) (websiteLogs sample_state)"
    by (simp add: sample_defs)
  have w: "new_website sample_env ?v = alice_site\<lparr> w_id := ''w2'', w_userId := ''u2'', w_name := ''Bob Site'',
           w_subdomain := ''bob-site'', w_createdAt := Some 5, w_updatedAt := 5 \<rparr>"
    by (simp add: new_website_def sample_defs)
  have l: "new_log sample_env ''w2'' ''created'' (created_details (new_website sample_env ?v))
             = \<lparr> l_id = ''l2'', l_websiteId = ''w2'', l_action = ''created'',
           l_details = JObj [(''name'', JStr ''Bob Site''), (''subdomain'', JStr ''bob-site'')],
           l_createdAt = 5 \<rparr>"
    by (simp add: new_log_def created_details_def new_website_def sample_defs)
  have e: "websiteUuid sample_env = ''w2''" "trace sample_state = []"
    by (simp_all add: sample_defs)
  note T = create_website_effects[OF q v f, of sample_env]
  note T3 = create_website_effects[OF q3 v3 f3, of sample_env]
  have ok: "status (fst ?P) = 201"
    using T[THEN conjunct2, THEN conjunct2, THEN conjunct2] m u by blast
  note A = T[THEN conjunct2, THEN conjunct1, rule_format, OF ok]
  have tr: "trace (snd ?P) =
       [FsMkdir ([''srv'', ''app'', ''user_websites'', ''u2'', ''bob-site''], False),
        DbInsertWebsite (alice_site\<lparr> w_id := ''w2'', w_userId := ''u2'', w_name := ''Bob Site'',
           w_subdomain := ''bob-site'', w_createdAt := Some 5, w_updatedAt := 5 \<rparr>),
        DbInsertLog \<lparr> l_id = ''l2'', l_websiteId = ''w2'', l_action = ''created'',
           l_details = JObj [(''name'', JStr ''Bob Site''), (''subdomain'', JStr ''bob-site'')],
           l_createdAt = 5 \<rparr>]"
    using A[THEN conjunct1] l by (simp add: d w e)
  have nd: "lookup (fs (snd ?P)) [''srv'', ''app'', ''user_websites'', ''u2'', ''bob-site''] = Some (Dir [])"
    using A[THEN conjunct2, THEN conjunct2, THEN conjunct2, THEN conjunct1] n by (simp add: d)
  have fail: "post_websites sample_sys sample_env ''u3'' bob_body sample_state
       = (\<lparr> status = 500, body = Message ''Failed to create website'' \<rparr>, sample_state)"
    using T3[THEN conjunct2, THEN conjunct2, THEN conjunct1] m3 by blast
  have f': "getWebsiteBySubdomain sample_state ''bob-site'' = None"
    using f by simp
  from q f' n ok tr nd q3 fail show ?thesis by blast
qed











text \<open>
  C8. A \<^verbatim>\<open>PATCH /api/websites/:id\<close> request never changes the owner or the subdomain of
  a website, whatever its caller and whatever its body holds: both keys are removed from
  the body before the update is applied. Row by row the owners and the subdomains of the
  table after the request are those before it; the object handed to the update has
  neither key, and it is the stripped body that the update statement carries; and when
  the request is answered 200 the row returned has the owner and the subdomain of the
  old row. The body is applied as it is otherwise: a key \<^verbatim>\<open>id\<close> in it reaches the
  statement, which then fails or gives the row another id, as the last two lines of the
  example show.
\<close>

theorem patch_keeps_owner_and_subdomain:
  "map w_userId (websites (snd (patch_website y e userId i b s))) = map w_userId (websites s)
   \<and> map w_subdomain (websites (snd (patch_website y e userId i b s))) = map w_subdomain (websites s)
   \<and> map_of (strip_body b) ''userId'' = None
   \<and> map_of (strip_body b) ''subdomain'' = None
   \<and> (trace (snd (patch_website y e userId i b s)) = trace s
        \<or> prefix (trace s @ [DbUpdateWebsite i (strip_body b)]) (trace (snd (patch_website y e userId i b s))))
   \<and> (getWebsite s i = Some w \<and> status (fst (patch_website y e userId i b s)) = 200 \<longrightarrow>
        (\<exists>w'. body (fst (patch_website y e userId i b s)) = WebsiteJson (Some w')
             \<and> w_userId w' = w_userId w \<and> w_subdomain w' = w_subdomain w))"
proof -
  let ?P = "patch_website y e userId i b s"
  obtain a s1 where x: "updateWebsite y e i (strip_body b) s = (a, s1)"
    by (cases "updateWebsite y e i (strip_body b) s")
  have k: "map w_userId (websites (snd ?P)) = map w_userId (websites s)
         \<and> map w_subdomain (websites (snd ?P)) = map w_subdomain (websites s)"
    using patch_website_keys[of y e userId i b s] by (rule owners_of_keys)
  have t: "trace (snd ?P) = trace s \<or> prefix (trace s @ [DbUpdateWebsite i (strip_body b)]) (trace (snd ?P))"
  proof (cases a)
    case (Inl err)
    then have "s1 = s"
      using x by (auto simp: updateWebsite_def split: option.splits if_splits)
    with Inl x show ?thesis
      by (auto simp: patch_website_def split: option.splits)
  next
    case (Inr updated)
    then have "trace s1 = trace s @ [DbUpdateWebsite i (strip_body b)]"
      using x by (auto simp: updateWebsite_def split: option.splits if_splits)
    with Inr x show ?thesis
      by (auto simp: patch_website_def createWebsiteLog_def split: option.splits)
  qed
  have r: "getWebsite s i = Some w \<and> status (fst ?P) = 200 \<longrightarrow>
        (\<exists>w'. body (fst ?P) = WebsiteJson (Some w')
             \<and> w_userId w' = w_userId w \<and> w_subdomain w' = w_subdomain w)"
  proof
    assume h: "getWebsite s i = Some w \<and> status (fst ?P) = 200"
    then have o: "w_userId w = userId"
      by (auto simp: patch_website_def access_denied_def split: if_splits)
    from h o x obtain updated where a: "a = Inr updated" and bd: "body (fst ?P) = WebsiteJson updated"
      by (cases a) (auto simp: patch_website_def split: prod.splits sum.splits)
    from x a obtain c where c: "bind_set y (strip_body b) = Some c"
        and u: "updated = map_option (set_row (now e) c) (find (\<lambda>w. w_id w = i) (websites s))"
      by (auto simp: updateWebsite_def split: option.splits if_splits)
    have kp: "c_userId c = Keep \<and> c_subdomain c = Keep"
      using bind_set_keeps[OF strip_body_keys c] .
    have "updated = Some (set_row (now e) c w)"
      using u h by (simp add: getWebsite_def)
    moreover have "w_userId (set_row (now e) c w) = w_userId w \<and> w_subdomain (set_row (now e) c w) = w_subdomain w"
      using kp by (simp add: set_row_def required_def)
    ultimately show "\<exists>w'. body (fst ?P) = WebsiteJson (Some w')
             \<and> w_userId w' = w_userId w \<and> w_subdomain w' = w_subdomain w"
      using bd by simp
  qed
  from k t r strip_body_keys[of b] show ?thesis by blast
qed

theorem patch_keeps_owner_and_subdomain_witness:
  "fst (patch_website sample_sys sample_env ''u1'' ''w1''
       [(''userId'', JStr ''mallory''), (''name'', JStr ''Renamed''), (''subdomain'', JStr ''stolen'')]
       sample_state)
     = \<lparr> status = 200, body = WebsiteJson (Some (alice_site\<lparr> w_name := ''Renamed'', w_updatedAt := 5 \<rparr>)) \<rparr>
   \<and> websites (snd (patch_website sample_sys sample_env ''u1'' ''w1''
       [(''userId'', JStr ''mallory''), (''name'', JStr ''Renamed''), (''subdomain'', JStr ''stolen'')]
       sample_state))
     = [alice_site\<lparr> w_name := ''Renamed'', w_updatedAt := 5 \<rparr>]
   \<and> w_userId alice_site = ''u1'' \<and> w_subdomain alice_site = ''alice-site''
   \<and> (\<exists>w'. body (fst (patch_website sample_sys sample_env ''u1'' ''w1''
       [(''userId'', JStr ''mallory''), (''name'', JStr ''Renamed''), (''subdomain'', JStr ''stolen'')]
       sample_state)) = WebsiteJson (Some w') \<and> w_userId w' = ''u1'' \<and> w_subdomain w' = ''alice-site'')
   \<and> patch_website sample_sys sample_env ''u1'' ''w1''
        [(''id'', JStr ''w9''), (''userId'', JStr ''mallory'')] sample_state
     = (\<lparr> status = 500, body = Message ''Failed to update website'' \<rparr>, sample_state)
   \<and> websites (snd (patch_website sample_sys sample_env ''u1'' ''w1''
        [(''id'', JStr ''w9''), (''userId'', JStr ''mallory'')] (sample_state\<lparr> websiteLogs := [] \<rparr>)))
     = [alice_site\<lparr> w_id := ''w9'', w_updatedAt := 5 \<rparr>]"
proof -
  let ?b = "[(''userId'', JStr ''mallory''), (''name'', JStr ''Renamed''), (''subdomain'', JStr ''stolen'')]"
  have w: "getWebsite sample_state ''w1'' = Some alice_site"
    by (simp add: getWebsite_def sample_defs)
  have f: "fst (patch_website sample_sys sample_env ''u1'' ''w1'' ?b sample_state)
     = \<lparr> status = 200, body = WebsiteJson (Some (alice_site\<lparr> w_name := ''Renamed'', w_updatedAt := 5 \<rparr>)) \<rparr>"
    by (simp add: eval_defs sample_defs)
  have r: "websites (snd (patch_website sample_sys sample_env ''u1'' ''w1'' ?b sample_state))
     = [alice_site\<lparr> w_name := ''Renamed'', w_updatedAt := 5 \<rparr>]"
    by (simp add: eval_defs sample_defs)
  have o: "w_userId alice_site = ''u1'' \<and> w_subdomain alice_site = ''alice-site''"
    by (simp add: sample_defs)
  have ok: "status (fst (patch_website sample_sys sample_env ''u1'' ''w1'' ?b sample_state)) = 200"
    using f by simp
  note T = patch_keeps_owner_and_subdomain[of sample_sys sample_env "''u1''" "''w1''" ?b sample_state alice_site]
  have "\<exists>w'. body (fst (patch_website sample_sys sample_env ''u1'' ''w1'' ?b sample_state)) = WebsiteJson (Some w')
          \<and> w_userId w' = w_userId alice_site \<and> w_subdomain w' = w_subdomain alice_site"
    using T w ok by blast
  then have "\<exists>w'. body (fst (patch_website sample_sys sample_env ''u1'' ''w1'' ?b sample_state)) = WebsiteJson (Some w')
          \<and> w_userId w' = ''u1'' \<and> w_subdomain w' = ''alice-site''"
    using o by simp
  moreover have "patch_website sample_sys sample_env ''u1'' ''w1''
        [(''id'', JStr ''w9''), (''userId'', JStr ''mallory'')] sample_state
     = (\<lparr> status = 500, body = Message ''Failed to update website'' \<rparr>, sample_state)"
    by (simp add: eval_defs sample_defs)
  moreover have "websites (snd (patch_website sample_sys sample_env ''u1'' ''w1''
        [(''id'', JStr ''w9''), (''userId'', JStr ''mallory'')] (sample_state\<lparr> websiteLogs := [] \<rparr>)))
     = [alice_site\<lparr> w_id := ''w9'', w_updatedAt := 5 \<rparr>]"
    by (simp add: eval_defs sample_defs)
  ultimately show ?thesis using f r o by blast
qed

text \<open>
  C9. The change-script route does not confine the template name to the template store.
  The name \<^verbatim>\<open>../outside.zip\<close> resolves outside the store directory whatever the working
  directory is. In the sample installation the name \<^verbatim>\<open>../../outside.zip\<close>, which has
  \<^verbatim>\<open>..\<close> segments, resolves to \<^verbatim>\<open>/srv/outside.zip\<close>; the existence check accepts it,
  the request answers 200, the command line handed to the shell holds that path between
  its quotes, and the website's subtree then holds the content of that archive.
\<close>

theorem template_name_escapes_store:
  "(\<forall>y. \<not> prefix (fst (scriptsDir y)) (fst (path_join (scriptsDir y) [''../outside.zip''])))
   \<and> ''..'' \<in> set (segments ''../../outside.zip'')
   \<and> scriptsDir sample_sys = ([''srv'', ''app'', ''allscripts''], False)
   \<and> path_join (scriptsDir sample_sys) [''../../outside.zip''] = ([''srv'', ''outside.zip''], False)
   \<and> scriptExists sample_sys ''../../outside.zip'' sample_state
   \<and> status (fst (post_change_script sample_sys sample_env ''u1'' ''w1'' ''../../outside.zip'' sample_state)) = 200
   \<and> last (trace (snd (extractScript sample_sys sample_env ''u1'' ''alice-site'' ''../../outside.zip'' sample_state)))
        = Exec ''cd \"/srv/app/user_websites/u1/alice-site\" && unzip -o \"/srv/outside.zip\"''
   \<and> lookup (fs (snd (post_change_script sample_sys sample_env ''u1'' ''w1'' ''../../outside.zip'' sample_state)))
        [''srv'', ''app'', ''user_websites'', ''u1'', ''alice-site'']
        = Some (Dir [(''index.html'', File ''<h1>Alice</h1>'')])"
proof -
  have "\<forall>y. \<not> prefix (fst (scriptsDir y)) (fst (path_join (scriptsDir y) [''../outside.zip'']))"
    by (simp add: escape_of_scriptsDir) (simp add: scriptsDir_shape)
  moreover have "''..'' \<in> set (segments ''../../outside.zip'')"
    by simp
  moreover have "scriptsDir sample_sys = ([''srv'', ''app'', ''allscripts''], False)"
    by (simp add: path_defs sample_defs)
  moreover have "path_join (scriptsDir sample_sys) [''../../outside.zip''] = ([''srv'', ''outside.zip''], False)"
    by (simp add: path_defs sample_defs)
  moreover have "scriptExists sample_sys ''../../outside.zip'' sample_state"
    by (simp add: scriptExists_def fs_access_def path_defs sample_defs)
  moreover have "status (fst (post_change_script sample_sys sample_env ''u1'' ''w1'' ''../../outside.zip'' sample_state)) = 200"
    by (simp add: eval_defs path_defs sample_defs)
  moreover have "last (trace (snd (extractScript sample_sys sample_env ''u1'' ''alice-site'' ''../../outside.zip'' sample_state)))
        = Exec ''cd \"/srv/app/user_websites/u1/alice-site\" && unzip -o \"/srv/outside.zip\"''"
    by (simp add: eval_defs path_defs sample_defs)
  moreover have "lookup (fs (snd (post_change_script sample_sys sample_env ''u1'' ''w1'' ''../../outside.zip'' sample_state)))
        [''srv'', ''app'', ''user_websites'', ''u1'', ''alice-site'']
        = Some (Dir [(''index.html'', File ''<h1>Alice</h1>'')])"
    by (simp add: eval_defs path_defs sample_defs)
  ultimately show ?thesis by blast
qed

text \<open>
  C10. Deleting a template is not scoped to an owner: for every caller and every template
  in the table, \<^verbatim>\<open>DELETE /api/scripts/:id\<close> answers 200, the template's row is gone
  and no file is left at the path of its archive; the handler gives the same answer and
  the same state whoever the caller is.
\<close>

theorem delete_script_any_caller:
  assumes "getScriptTemplate s i = Some t"
  shows "fst (delete_script y userId i s)
           = \<lparr> status = 200, body = Message ''Script template deleted successfully'' \<rparr>
       \<and> getScriptTemplate (snd (delete_script y userId i s)) i = None
       \<and> (fst (path_join (scriptsDir y) [t_fileName t]) \<noteq> [] \<longrightarrow>
            \<not> is_file (fs (snd (delete_script y userId i s))) (path_join (scriptsDir y) [t_fileName t]))
       \<and> delete_script y other i s = delete_script y userId i s"
  using assms deleteScript_removes[of y "t_fileName t" s]
  by (simp add: delete_script_def deleteScriptTemplate_def getScriptTemplate_def find_filter_other
      deleteScript_def split: sum.splits)

theorem delete_script_any_caller_witness:
  "is_file (fs sample_state) ([''srv'', ''app'', ''allscripts'', ''basic.zip''], False)
   \<and> delete_script sample_sys ''u9'' ''t1'' sample_state
     = (\<lparr> status = 200, body = Message ''Script template deleted successfully'' \<rparr>,
        snd (delete_script sample_sys ''u1'' ''t1'' sample_state))
   \<and> scriptTemplates (snd (delete_script sample_sys ''u9'' ''t1'' sample_state)) = []
   \<and> lookup (fs (snd (delete_script sample_sys ''u9'' ''t1'' sample_state)))
        [''srv'', ''app'', ''allscripts'', ''basic.zip''] = None"
proof -
  have t: "getScriptTemplate sample_state ''t1'' = Some basic_template"
    by (simp add: getScriptTemplate_def sample_defs)
  have f: "is_file (fs sample_state) ([''srv'', ''app'', ''allscripts'', ''basic.zip''], False)"
    by (simp add: is_file_def sample_defs)
  have a: "scriptTemplates (snd (delete_script sample_sys ''u9'' ''t1'' sample_state)) = []"
    by (simp add: eval_defs path_defs sample_defs)
  have b: "lookup (fs (snd (delete_script sample_sys ''u9'' ''t1'' sample_state)))
        [''srv'', ''app'', ''allscripts'', ''basic.zip''] = None"
    by (simp add: eval_defs path_defs sample_defs)
  from delete_script_any_caller[OF t, of sample_sys "''u9''" "''u1''"] f a b
  show ?thesis by (simp add: prod_eq_iff)
qed

end
